theory Spec2Isabelle
  imports Complex_Main
begin

section \<open>JavaScript values used by the component\<close>

text \<open>
  A JavaScript number is modelled as an exact rational extended by the three special
  values of IEEE arithmetic. Rounding of doubles and the sign of zero are not modelled.
\<close>

datatype jsnum = Fin rat | PInf | NInf | NaN

text \<open>
  The values a \<open>width\<close> or \<open>height\<close> prop can hold: PropTypes allows a number or a
  string, defaultProps supplies \<open>null\<close>, and an omitted prop is \<open>undefined\<close>.
\<close>

datatype jsval = JUndefined | JNull | JNum jsnum | JStr string

text \<open>
  An object-valued field of the asset descriptor has three states: the descriptor comes
  from a GraphQL query, which answers \<open>null\<close> for what the document lacks, and a
  descriptor built by hand may leave the field out.
\<close>

datatype 'a js = Undef | Null | Value 'a

text \<open>
  A destructuring default, \<open>const { x = d } = obj\<close>: only \<open>undefined\<close> takes the
  default. \<open>None\<close> is a \<open>null\<close>, which stays \<open>null\<close>.
\<close>

definition with_default :: "'a \<Rightarrow> 'a js \<Rightarrow> 'a option" where
  "with_default d v = (case v of Undef \<Rightarrow> Some d | Null \<Rightarrow> None | Value x \<Rightarrow> Some x)"

text \<open>ToBoolean: what \<open>!v\<close> and \<open>v || w\<close> test.\<close>

fun truthy :: "jsval \<Rightarrow> bool" where
  "truthy JUndefined = False"
| "truthy JNull = False"
| "truthy (JNum n) = (n \<noteq> Fin 0 \<and> n \<noteq> NaN)"
| "truthy (JStr s) = (s \<noteq> [])"

definition js_or :: "jsval \<Rightarrow> jsval \<Rightarrow> jsval" where
  "js_or a b = (if truthy a then a else b)"

text \<open>The relational operator \<open><=\<close> on numbers: every comparison with NaN is false.\<close>

fun js_le :: "jsnum \<Rightarrow> jsnum \<Rightarrow> bool" where
  "js_le NaN _ = False"
| "js_le _ NaN = False"
| "js_le (Fin a) (Fin b) = (a \<le> b)"
| "js_le NInf _ = True"
| "js_le _ PInf = True"
| "js_le PInf _ = False"
| "js_le _ NInf = False"

text \<open>The operator \<open>/\<close> on numbers.\<close>

fun js_div :: "jsnum \<Rightarrow> jsnum \<Rightarrow> jsnum" where
  "js_div NaN _ = NaN"
| "js_div _ NaN = NaN"
| "js_div (Fin a) (Fin b) =
     (if b = 0 then (if a = 0 then NaN else if 0 < a then PInf else NInf)
      else Fin (a / b))"
| "js_div (Fin a) _ = Fin 0"
| "js_div PInf (Fin b) = (if 0 \<le> b then PInf else NInf)"
| "js_div NInf (Fin b) = (if 0 \<le> b then NInf else PInf)"
| "js_div _ _ = NaN"

text \<open>
  Decimal digits of a natural number, most significant first, as a template literal
  prints an integer.
\<close>

definition digit_char :: "nat \<Rightarrow> char" where
  "digit_char d = ''0123456789'' ! d"

function nat_to_string :: "nat \<Rightarrow> string" where
  "nat_to_string n =
     (if n < 10 then [digit_char n]
      else nat_to_string (n div 10) @ [digit_char (n mod 10)])"
  by pat_completeness auto
termination
  by (relation "measure (\<lambda>n. n)") auto

declare nat_to_string.simps [simp del]

text \<open>Array.prototype.join with a separator.\<close>

fun join :: "string \<Rightarrow> string list \<Rightarrow> string" where
  "join sep [] = []"
| "join sep [x] = x"
| "join sep (x # y # ys) = x @ sep @ join sep (y # ys)"

section \<open>The asset descriptor\<close>

text \<open>
  A scalar field that the descriptor may lack is an option, \<open>None\<close> being
  \<open>undefined\<close>; for \<open>_ref\<close>, \<open>_id\<close>, \<open>asset\<close> and \<open>lqip\<close>, which the component
  only tests for truthiness, \<open>None\<close> stands for \<open>null\<close> as well. The objects
  \<open>metadata\<close> and \<open>dimensions\<close> are destructured and dereferenced, so their \<open>null\<close>
  is kept apart from \<open>undefined\<close>.
\<close>

record dimensions =
  dim_aspectRatio :: "jsnum option"

record metadata =
  lqip :: "string option"
  dimensions :: "dimensions js"

record sanity_asset =
  asset_ref :: "string option"
  asset_id :: "string option"
  extension :: "string option"
  mimeType :: "string option"
  asset_url :: "string option"
  metadata :: "metadata js"

record sanity_image =
  asset :: "sanity_asset option"

section \<open>External collaborators\<close>

text \<open>
  \<open>imageUrlFor(image)\<close> returns a builder; \<open>.width(w)\<close> and \<open>.format(f)\<close> record
  the request and \<open>.url()\<close> renders it. The builder lives in \<open>lib/image-url\<close>, outside
  the component, so the rendering function is a parameter.
\<close>

record url_builder =
  b_image :: sanity_image
  b_width :: "jsnum option"
  b_format :: "string option"

definition imageUrlFor :: "sanity_image \<Rightarrow> url_builder" where
  "imageUrlFor img = \<lparr>b_image = img, b_width = None, b_format = None\<rparr>"

definition with_width :: "jsnum \<Rightarrow> url_builder \<Rightarrow> url_builder" where
  "with_width w b = b\<lparr>b_width := Some w\<rparr>"

definition with_format :: "string \<Rightarrow> url_builder \<Rightarrow> url_builder" where
  "with_format f b = b\<lparr>b_format := Some f\<rparr>"

text \<open>
  Everything the component takes from its environment:
  \<^item> \<open>url\<close>: the builder's \<open>.url()\<close>;
  \<^item> \<open>styles\<close>: the class names generated for \<open>picture-asset.module.scss\<close>;
  \<^item> \<open>string_to_number\<close>: the conversion applied when a string is divided;
  \<^item> \<open>number_repr\<close>: how a number that is not an integer below \<open>10^21\<close> is printed.
\<close>

record externals =
  url :: "url_builder \<Rightarrow> string"
  styles :: "string \<Rightarrow> string"
  string_to_number :: "string \<Rightarrow> jsnum"
  number_repr :: "rat \<Rightarrow> string"

text \<open>Number to string, as a template literal converts it.\<close>

definition number_to_string :: "externals \<Rightarrow> jsnum \<Rightarrow> string" where
  "number_to_string ex n =
     (case n of
        NaN \<Rightarrow> ''NaN''
      | PInf \<Rightarrow> ''Infinity''
      | NInf \<Rightarrow> ''-Infinity''
      | Fin q \<Rightarrow>
          if of_int \<lfloor>q\<rfloor> = q \<and> \<bar>q\<bar> < 10 ^ 21
          then (if q < 0 then ''-'' @ nat_to_string (nat \<lfloor>- q\<rfloor>)
                else nat_to_string (nat \<lfloor>q\<rfloor>))
          else number_repr ex q)"

text \<open>ToNumber, as the operator \<open>/\<close> converts its operands.\<close>

definition to_number :: "externals \<Rightarrow> jsval \<Rightarrow> jsnum" where
  "to_number ex v =
     (case v of
        JUndefined \<Rightarrow> NaN
      | JNull \<Rightarrow> Fin 0
      | JNum n \<Rightarrow> n
      | JStr s \<Rightarrow> string_to_number ex s)"

section \<open>The source-set computation\<close>

definition defaultBreakpoints :: "jsnum list" where
  "defaultBreakpoints = [Fin 1200, Fin 1000, Fin 800, Fin 600, Fin 400]"

definition DEFAULT_MAX_WIDTH :: jsnum where
  "DEFAULT_MAX_WIDTH = Fin 1780"

text \<open>
  One entry of the descriptor string: the template literal
  \<open>`${urlBuilder.url()} ${breakPoint}w`\<close>.
\<close>

definition srcset_entry :: "externals \<Rightarrow> sanity_image \<Rightarrow> string \<Rightarrow> jsnum \<Rightarrow> string" where
  "srcset_entry ex img fmt breakPoint =
     url ex (with_format fmt (with_width breakPoint (imageUrlFor img)))
       @ '' '' @ number_to_string ex breakPoint @ ''w''"

text \<open>
  \<open>breakPointsToString(image, format = 'jpg', maxWidth = DEFAULT_MAX_WIDTH,
  breakPoints = defaultBreakpoints)\<close>: an argument that is \<open>undefined\<close> (\<open>None\<close>) takes
  its default.
\<close>

definition breakPointsToString ::
  "externals \<Rightarrow> sanity_image \<Rightarrow> string option \<Rightarrow> jsnum option \<Rightarrow> jsnum list option \<Rightarrow> string"
where
  "breakPointsToString ex img format_arg maxWidth_arg breakPoints_arg =
     (let fmt = (case format_arg of None \<Rightarrow> ''jpg'' | Some f \<Rightarrow> f);
          maxWidth = (case maxWidth_arg of None \<Rightarrow> DEFAULT_MAX_WIDTH | Some w \<Rightarrow> w);
          breakPoints = (case breakPoints_arg of None \<Rightarrow> defaultBreakpoints | Some bs \<Rightarrow> bs);
          bpMap = map (\<lambda>breakPoint. srcset_entry ex img fmt breakPoint)
                    (filter (\<lambda>breakPoint. js_le breakPoint maxWidth) breakPoints)
      in join '', '' bpMap)"

section \<open>The rendered tree\<close>

text \<open>
  An element has a tag, its attributes in the order the JSX writes them, and its
  children. Where a name occurs twice (a spread after a named attribute), the later
  one wins. A node that the caller supplies (the \<open>loader\<close>) is opaque to the component:
  it is carried as \<open>Custom\<close> with a label.
\<close>

datatype action = SetShow bool

datatype attr =
    Val jsval
  | Style "(string \<times> jsval) list"
  | Handler action
  | Ref

datatype node =
    Elem string "(string \<times> attr) list" "node list"
  | Custom string

fun tag_of :: "node \<Rightarrow> string" where
  "tag_of (Elem t _ _) = t"
| "tag_of (Custom _) = []"

fun children_of :: "node \<Rightarrow> node list" where
  "children_of (Elem _ _ cs) = cs"
| "children_of (Custom _) = []"

fun attr_of :: "string \<Rightarrow> node \<Rightarrow> attr option" where
  "attr_of name (Elem _ as _) = map_of (rev as) name"
| "attr_of name (Custom _) = None"

text \<open>Every element of the tree with the given tag, in document order.\<close>

fun elems_with_tag :: "string \<Rightarrow> node \<Rightarrow> node list" where
  "elems_with_tag t (Elem t' as cs) =
     (if t' = t then [Elem t' as cs] else []) @ concat (map (elems_with_tag t) cs)"
| "elems_with_tag t (Custom _) = []"

text \<open>
  The final image: the \<open>img\<close> child of the \<open>picture\<close> child of the root.
\<close>

definition final_image :: "node \<Rightarrow> node option" where
  "final_image tree =
     (case filter (\<lambda>c. tag_of c = ''picture'') (children_of tree) of
        [pic] \<Rightarrow>
          (case filter (\<lambda>c. tag_of c = ''img'') (children_of pic) of
             [i] \<Rightarrow> Some i
           | _ \<Rightarrow> None)
      | _ \<Rightarrow> None)"

text \<open>
  \<open>clsx\<close> on strings and falsy values (\<open>None\<close>): the truthy arguments joined by a
  space.
\<close>

definition clsx :: "string option list \<Rightarrow> string" where
  "clsx args =
     join '' '' (concat (map (\<lambda>a. case a of None \<Rightarrow> [] | Some s \<Rightarrow> if s = [] then [] else [s]) args))"

definition str_val :: "string option \<Rightarrow> jsval" where
  "str_val s = (case s of None \<Rightarrow> JUndefined | Some x \<Rightarrow> JStr x)"

definition num_val :: "jsnum option \<Rightarrow> jsval" where
  "num_val n = (case n of None \<Rightarrow> JUndefined | Some x \<Rightarrow> JNum x)"

section \<open>Props and instance state\<close>

text \<open>
  The props after defaultProps: \<open>image\<close> is an object or omitted, \<open>isFluid\<close>,
  \<open>objectFit\<close> and \<open>alt\<close> always have a value, and an omitted \<open>width\<close>,
  \<open>height\<close> or \<open>className\<close> has become \<open>null\<close>: for \<open>className\<close>, \<open>None\<close>
  is that \<open>null\<close>. For the other optional props
  \<open>None\<close> is an omitted prop; the destructuring defaults of \<open>image\<close>, \<open>maxWidth\<close>,
  \<open>breakPoints\<close> and \<open>sizes\<close> are applied by the component.
\<close>

record props =
  image_p :: "sanity_image option"
  isFluid :: bool
  objectFit :: string
  maxWidth :: "jsnum option"
  width :: jsval
  height :: jsval
  aspectRatio :: "jsnum option"
  alt :: string
  className :: "string option"
  breakPoints :: "jsnum list option"
  loader :: "string option"
  sizes :: "string option"
  otherProps :: "(string \<times> attr) list"

text \<open>
  The state of one mounted instance: \<open>shown\<close> is the \<open>show\<close> of
  \<open>useState(false)\<close>, \<open>inView\<close> is what \<open>useInView({ triggerOnce: true })\<close> returns.
\<close>

record inst =
  shown :: bool
  inView :: bool

text \<open>
  The destructuring defaults \<open>maxWidth = DEFAULT_MAX_WIDTH\<close>,
  \<open>breakPoints = defaultBreakpoints\<close> and \<open>sizes = ''\<close>.
\<close>

definition maxWidth_of :: "props \<Rightarrow> jsnum" where
  "maxWidth_of p = (case maxWidth p of None \<Rightarrow> DEFAULT_MAX_WIDTH | Some w \<Rightarrow> w)"

definition breakPoints_of :: "props \<Rightarrow> jsnum list" where
  "breakPoints_of p = (case breakPoints p of None \<Rightarrow> defaultBreakpoints | Some bs \<Rightarrow> bs)"

definition sizes_of :: "props \<Rightarrow> string" where
  "sizes_of p = (case sizes p of None \<Rightarrow> [] | Some x \<Rightarrow> x)"

definition initial :: inst where
  "initial = \<lparr>shown = False, inView = False\<rparr>"

section \<open>The component\<close>

text \<open>
  What the component can throw: the \<open>Error\<close> it constructs itself, with its message,
  and the \<open>TypeError\<close> of reading a property of \<open>null\<close>.
\<close>

datatype error = Error string | TypeError

text \<open>
  What one call of the component does: the messages it passes to \<open>console.error\<close>,
  and either the error it throws or the value it returns (\<open>None\<close> is \<open>null\<close>).
\<close>

type_synonym outcome = "string list \<times> (error + node option)"

text \<open>
  Line 73, \<open>const { metadata = {} } = asset\<close>: the metadata the component goes on
  with, \<open>None\<close> when it is \<open>null\<close>.
\<close>

definition asset_metadata :: "sanity_asset \<Rightarrow> metadata option" where
  "asset_metadata a = with_default \<lparr>lqip = None, dimensions = Undef\<rparr> (metadata a)"

text \<open>
  Line 74, \<open>const { lqip = '', dimensions = {} } = metadata\<close>, for a metadata that is
  an object. On \<open>null\<close> the line throws, which the component function models.
\<close>

definition metadata_lqip :: "metadata \<Rightarrow> string" where
  "metadata_lqip md = (case lqip md of None \<Rightarrow> [] | Some l \<Rightarrow> l)"

definition metadata_dimensions :: "metadata \<Rightarrow> dimensions option" where
  "metadata_dimensions md = with_default \<lparr>dim_aspectRatio = None\<rparr> (dimensions md)"

text \<open>
  The property access \<open>dimensions.aspectRatio\<close>: a TypeError when \<open>dimensions\<close> is
  \<open>null\<close>.
\<close>

definition dimensions_aspectRatio :: "dimensions option \<Rightarrow> error + jsval" where
  "dimensions_aspectRatio dims =
     (case dims of
        None \<Rightarrow> Inl TypeError
      | Some d \<Rightarrow> Inr (num_val (dim_aspectRatio d)))"

record computed =
  computedWidth :: jsval
  computedHeight :: jsval
  webpSrcSet :: string
  defaultSrcSet :: string

text \<open>
  The sizing branch, \<open>if (isFluid) { ... } else { ... }\<close>. In the fixed branch
  \<open>height || width / dimensions.aspectRatio\<close> reads \<open>dimensions\<close> only when
  \<open>height\<close> is falsy, and throws there when \<open>dimensions\<close> is \<open>null\<close>.
\<close>

definition compute ::
  "externals \<Rightarrow> props \<Rightarrow> sanity_image \<Rightarrow> sanity_asset \<Rightarrow> dimensions option
     \<Rightarrow> error + computed"
where
  "compute ex p img a dims =
     (if isFluid p then
        Inr \<lparr>computedWidth = JStr ''100%'',
             computedHeight = (if \<not> truthy (height p) then JStr ''100%'' else height p),
             webpSrcSet =
               breakPointsToString ex img (Some ''webp'') (Some (maxWidth_of p))
                 (Some (breakPoints_of p)),
             defaultSrcSet =
               breakPointsToString ex img (extension a) (Some (maxWidth_of p))
                 (Some (breakPoints_of p))\<rparr>
      else
        (let cw = (case width p of JNum w \<Rightarrow> w | _ \<Rightarrow> maxWidth_of p) in
         case (if truthy (height p) then Inr (height p)
               else (case dimensions_aspectRatio dims of
                       Inl e \<Rightarrow> Inl e
                     | Inr r \<Rightarrow>
                         Inr (JNum (js_div (to_number ex (width p)) (to_number ex r)))))
         of
           Inl e \<Rightarrow> Inl e
         | Inr h \<Rightarrow>
             Inr \<lparr>computedWidth = JNum cw,
                  computedHeight = h,
                  webpSrcSet =
                    breakPointsToString ex img (Some ''webp'') (Some cw)
                      (Some (breakPoints_of p)),
                  defaultSrcSet =
                    breakPointsToString ex img (extension a) (Some cw)
                      (Some (breakPoints_of p))\<rparr>))"

text \<open>The fallback URL: \<open>imageUrlFor(image).width(maxWidth).url()\<close>.\<close>

definition fallback_url :: "externals \<Rightarrow> props \<Rightarrow> sanity_image \<Rightarrow> string" where
  "fallback_url ex p img = url ex (with_width (maxWidth_of p) (imageUrlFor img))"

text \<open>The placeholder layer: the caller's \<open>loader\<close>, or the lqip image.\<close>

definition placeholder :: "externals \<Rightarrow> props \<Rightarrow> string \<Rightarrow> node" where
  "placeholder ex p lq =
     (case loader p of
        Some l \<Rightarrow> Custom l
      | None \<Rightarrow>
          Elem ''img''
            [(''src'', Val (JStr (if lq \<noteq> [] then lq else []))),
             (''className'',
                Val (JStr (clsx [Some (styles ex ''lqip''),
                                 Some (if objectFit p = ''cover'' then styles ex ''cover''
                                       else styles ex ''contain'')]))),
             (''alt'', Val (JStr ''Placeholder''))]
            [])"

text \<open>
  The operand \<open>aspectRatio || dimensions.aspectRatio\<close> of the spacer: \<open>dimensions\<close>
  is read only when the prop is falsy.
\<close>

definition spacer_ratio :: "props \<Rightarrow> dimensions option \<Rightarrow> error + jsval" where
  "spacer_ratio p dims =
     (if truthy (num_val (aspectRatio p)) then Inr (num_val (aspectRatio p))
      else dimensions_aspectRatio dims)"

text \<open>The spacer of fluid mode, with its \<open>paddingTop\<close>, for a given operand.\<close>

definition spacer :: "externals \<Rightarrow> jsval \<Rightarrow> node" where
  "spacer ex r =
     Elem ''div''
       [(''className'', Val (JStr (styles ex ''aspectRatio''))),
        (''style'',
           Style [(''paddingTop'',
             JStr (number_to_string ex (js_div (Fin 100) (to_number ex r)) @ ''%''))])]
       []"

text \<open>What the \<open>picture\<close> element holds once \<open>inView\<close> is true.\<close>

definition picture_children ::
  "externals \<Rightarrow> props \<Rightarrow> sanity_asset \<Rightarrow> computed \<Rightarrow> string \<Rightarrow> node list"
where
  "picture_children ex p a c u =
     [Elem ''source''
        [(''type'', Val (JStr ''image/webp'')),
         (''srcSet'', Val (JStr (webpSrcSet c))),
         (''sizes'', Val (JStr (sizes_of p)))] [],
      Elem ''source''
        [(''type'', Val (str_val (mimeType a))),
         (''srcSet'', Val (JStr (defaultSrcSet c))),
         (''sizes'', Val (JStr (sizes_of p)))] [],
      Elem ''img''
        [(''className'',
            Val (JStr (clsx [Some (styles ex ''image''),
                             (if isFluid p then Some (styles ex ''fluid'') else None),
                             Some (if objectFit p = ''cover'' then styles ex ''cover''
                                   else styles ex ''contain'')]))),
         (''onLoad'', Handler (SetShow True)),
         (''src'', Val (JStr u)),
         (''srcSet'', Val (JStr (defaultSrcSet c))),
         (''alt'', Val (JStr (alt p))),
         (''sizes'', Val (JStr (sizes_of p)))] []]"

text \<open>
  The JSX of a raster asset (lines 112 to 161), given what the sizing branch computed
  and the spacer, which is present in fluid mode only.
\<close>

definition raster_node ::
  "externals \<Rightarrow> props \<Rightarrow> inst \<Rightarrow> sanity_image \<Rightarrow> sanity_asset \<Rightarrow> string
     \<Rightarrow> computed \<Rightarrow> node list \<Rightarrow> node"
where
  "raster_node ex p s img a lq c spacers =
     Elem ''div''
       [(''ref'', Ref),
        (''className'', Val (JStr (clsx [Some (styles ex ''assetWrapper''), className p]))),
        (''style'', Style [(''width'', computedWidth c), (''height'', computedHeight c)])]
       ([Elem ''div''
           [(''className'',
               Val (JStr (clsx [Some (styles ex ''hider''),
                                (if shown s then Some (styles ex ''hide'') else None)])))]
           [placeholder ex p lq]]
        @ spacers
        @ [Elem ''picture''
             [(''className'',
                 Val (JStr (clsx [Some (styles ex ''picture''),
                                  (if shown s then Some (styles ex ''show'') else None)])))]
             (if inView s then picture_children ex p a c (fallback_url ex p img) else [])])"

text \<open>
  The tree returned for a raster asset, or the TypeError of reading \<open>dimensions\<close>
  when it is \<open>null\<close>: in the sizing branch, or in the spacer.
\<close>

definition raster_tree ::
  "externals \<Rightarrow> props \<Rightarrow> inst \<Rightarrow> sanity_image \<Rightarrow> sanity_asset \<Rightarrow> string
     \<Rightarrow> dimensions option \<Rightarrow> error + node"
where
  "raster_tree ex p s img a lq dims =
     (case compute ex p img a dims of
        Inl e \<Rightarrow> Inl e
      | Inr c \<Rightarrow>
          (if isFluid p
           then (case spacer_ratio p dims of
                   Inl e \<Rightarrow> Inl e
                 | Inr r \<Rightarrow> Inr (raster_node ex p s img a lq c [spacer ex r]))
           else Inr (raster_node ex p s img a lq c [])))"

text \<open>The test \<open>image.asset._ref || image.asset._id\<close> on optional strings.\<close>

definition truthy_str :: "string option \<Rightarrow> bool" where
  "truthy_str s = (case s of None \<Rightarrow> False | Some x \<Rightarrow> x \<noteq> [])"

definition PictureAsset :: "externals \<Rightarrow> props \<Rightarrow> inst \<Rightarrow> outcome" where
  "PictureAsset ex p s =
     (let img = (case image_p p of None \<Rightarrow> \<lparr>asset = None\<rparr> | Some i \<Rightarrow> i) in
      case asset img of
        None \<Rightarrow> ([''Not a valid sanity image asset''], Inr None)
      | Some a \<Rightarrow>
          if \<not> (truthy_str (asset_ref a) \<or> truthy_str (asset_id a))
          then ([''Not a valid sanity image asset''], Inr None)
          else
            (case asset_metadata a of
               None \<Rightarrow> ([], Inl TypeError)
             | Some md \<Rightarrow>
                 (let lq = metadata_lqip md;
                      dims = metadata_dimensions md
                  in
                    if \<not> isFluid p \<and> \<not> truthy (width p) \<and> \<not> truthy (height p)
                    then ([], Inl (Error ''Picture Asset component requires one of isFluid or width or height''))
                    else if extension a = Some ''svg''
                    then ([], Inr (Some (Elem ''img''
                             ([(''src'', Val (str_val (asset_url a))),
                               (''alt'', Val (JStr (alt p))),
                               (''className'',
                                  Val (case className p of None \<Rightarrow> JNull | Some c \<Rightarrow> JStr c))]
                              @ otherProps p)
                             [])))
                    else (case raster_tree ex p s img a lq dims of
                            Inl e \<Rightarrow> ([], Inl e)
                          | Inr tree \<Rightarrow> ([], Inr (Some tree))))))"

section \<open>Signals\<close>

text \<open>
  The two signals an instance receives. \<open>Intersecting b\<close> is a report of the viewport
  observer; \<open>ImageLoad\<close> is the load event of the final image.
\<close>

datatype event = Intersecting bool | ImageLoad

text \<open>
  Modelled from the spec: the viewport observer behind
  \<open>useInView({ triggerOnce: true })\<close> is the library react-intersection-observer, which
  the sources only call. Following section 4.4 of the specification, the value the hook
  returns starts false, follows the reports until the first intersection, and is left
  alone afterwards.
\<close>

definition observe_once :: "bool \<Rightarrow> bool \<Rightarrow> bool" where
  "observe_once seen intersecting = (if seen then True else intersecting)"

text \<open>
  The load event reaches the \<open>onLoad\<close> handler of the final image of the tree rendered
  with the current props and state; when no such image is rendered the event has no
  receiver.
\<close>

definition step :: "externals \<Rightarrow> props \<Rightarrow> inst \<Rightarrow> event \<Rightarrow> inst" where
  "step ex p s ev =
     (case ev of
        Intersecting b \<Rightarrow> s\<lparr>inView := observe_once (inView s) b\<rparr>
      | ImageLoad \<Rightarrow>
          (case snd (PictureAsset ex p s) of
             Inr (Some tree) \<Rightarrow>
               (case final_image tree of
                  Some i \<Rightarrow>
                    (case attr_of ''onLoad'' i of
                       Some (Handler (SetShow b)) \<Rightarrow> s\<lparr>shown := b\<rparr>
                     | _ \<Rightarrow> s)
                | None \<Rightarrow> s)
           | _ \<Rightarrow> s))"

text \<open>
  A life of an instance: each signal arrives while the instance is rendered with some
  props, which may change from one render to the next.
\<close>

fun run :: "externals \<Rightarrow> inst \<Rightarrow> (props \<times> event) list \<Rightarrow> inst" where
  "run ex s [] = s"
| "run ex s ((p, ev) # rest) = run ex (step ex p s ev) rest"

section \<open>Reading an outcome\<close>

text \<open>The tree an outcome returns, if it returns one.\<close>

definition rendered :: "outcome \<Rightarrow> node option" where
  "rendered out = (case snd out of Inl _ \<Rightarrow> None | Inr t \<Rightarrow> t)"


text \<open>
  What a browser would see of an outcome: the \<open>source\<close> elements, the final image
  and its \<open>src\<close>, and the \<open>paddingTop\<close> of the spacer, which fluid mode puts
  between the placeholder layer and the \<open>picture\<close>.
\<close>

definition sources_of :: "outcome \<Rightarrow> node list" where
  "sources_of out = (case rendered out of None \<Rightarrow> [] | Some t \<Rightarrow> elems_with_tag ''source'' t)"

definition final_image_of :: "outcome \<Rightarrow> node option" where
  "final_image_of out = (case rendered out of None \<Rightarrow> None | Some t \<Rightarrow> final_image t)"

definition final_src :: "outcome \<Rightarrow> attr option" where
  "final_src out = (case final_image_of out of None \<Rightarrow> None | Some i \<Rightarrow> attr_of ''src'' i)"


section \<open>Sample inputs\<close>

text \<open>
  A URL builder that prints the requested width and format, identity class names, and
  a JPEG asset whose aspect ratio is one half. \<open>sample_props\<close> is what a caller passes
  who sets nothing but \<open>image\<close>.
\<close>

definition sample_externals :: externals where
  "sample_externals =
     \<lparr>url = (\<lambda>b. ''u'' @ (case b_width b of Some (Fin q) \<Rightarrow> nat_to_string (nat \<lfloor>q\<rfloor>) | _ \<Rightarrow> [])
                   @ (case b_format b of Some f \<Rightarrow> ''.'' @ f | None \<Rightarrow> [])),
      styles = (\<lambda>n. n),
      string_to_number = (\<lambda>s. NaN),
      number_repr = (\<lambda>q. ''?'')\<rparr>"

definition sample_dimensions :: dimensions where
  "sample_dimensions = \<lparr>dim_aspectRatio = Some (Fin (1/2))\<rparr>"

definition sample_metadata :: metadata where
  "sample_metadata = \<lparr>lqip = Some ''data:lq'', dimensions = Value sample_dimensions\<rparr>"

definition sample_asset :: sanity_asset where
  "sample_asset =
     \<lparr>asset_ref = None, asset_id = Some ''image-abc-jpg'', extension = Some ''jpg'',
      mimeType = Some ''image/jpeg'', asset_url = Some ''https://cdn/abc.jpg'',
      metadata = Value sample_metadata\<rparr>"

definition sample_image :: sanity_image where
  "sample_image = \<lparr>asset = Some sample_asset\<rparr>"

definition sample_props :: props where
  "sample_props =
     \<lparr>image_p = Some sample_image, isFluid = False, objectFit = ''cover'',
      maxWidth = None, width = JNull, height = JNull, aspectRatio = None, alt = [],
      className = None, breakPoints = None, loader = None, sizes = None, otherProps = []\<rparr>"

definition fluid_props :: props where
  "fluid_props = sample_props\<lparr>isFluid := True\<rparr>"

definition fixed_props :: props where
  "fixed_props = sample_props\<lparr>width := JNum (Fin 400)\<rparr>"

definition svg_asset :: sanity_asset where
  "svg_asset =
     \<lparr>asset_ref = Some ''image-logo-svg'', asset_id = None, extension = Some ''svg'',
      mimeType = Some ''image/svg+xml'', asset_url = Some ''https://cdn/logo.svg'',
      metadata = Undef\<rparr>"

definition svg_props :: props where
  "svg_props = sample_props\<lparr>image_p := Some \<lparr>asset = Some svg_asset\<rparr>\<rparr>"

definition bare_asset :: sanity_asset where
  "bare_asset = sample_asset\<lparr>metadata := Undef\<rparr>"

definition flat_asset :: sanity_asset where
  "flat_asset = sample_asset\<lparr>metadata := Value (sample_metadata\<lparr>dimensions := Null\<rparr>)\<rparr>"

definition capped_props :: props where
  "capped_props =
     fluid_props\<lparr>maxWidth := Some (Fin 900),
                  breakPoints := Some [Fin 300, Fin 1000, Fin 500]\<rparr>"

definition capped_fixed_props :: props where
  "capped_fixed_props = capped_props\<lparr>isFluid := False, width := JStr ''50%''\<rparr>"

definition null_metadata_props :: props where
  "null_metadata_props =
     sample_props\<lparr>image_p := Some \<lparr>asset = Some (sample_asset\<lparr>metadata := Null\<rparr>)\<rparr>\<rparr>"

definition visible :: inst where
  "visible = \<lparr>shown = False, inView = True\<rparr>"

section \<open>The exits of the component\<close>

lemma PictureAsset_invalid:
  assumes "\<And>img a. image_p p = Some img \<Longrightarrow> asset img = Some a \<Longrightarrow>
             \<not> truthy_str (asset_ref a) \<and> \<not> truthy_str (asset_id a)"
  shows "PictureAsset ex p s = ([''Not a valid sanity image asset''], Inr None)"
  using assms
  by (cases "image_p p"; cases "asset (the (image_p p))") (auto simp: PictureAsset_def)

lemma asset_metadata_None: "asset_metadata a = None \<longleftrightarrow> metadata a = Null"
  by (simp add: asset_metadata_def with_default_def split: js.splits)

lemma PictureAsset_null_metadata:
  assumes "image_p p = Some img" and "asset img = Some a"
    and "truthy_str (asset_ref a) \<or> truthy_str (asset_id a)"
    and "metadata a = Null"
  shows "PictureAsset ex p s = ([], Inl TypeError)"
  using assms by (auto simp: PictureAsset_def asset_metadata_def with_default_def)

lemma PictureAsset_unsized:
  assumes "image_p p = Some img" and "asset img = Some a"
    and "truthy_str (asset_ref a) \<or> truthy_str (asset_id a)"
    and "metadata a \<noteq> Null"
    and "\<not> isFluid p" and "\<not> truthy (width p)" and "\<not> truthy (height p)"
  shows "PictureAsset ex p s =
           ([], Inl (Error ''Picture Asset component requires one of isFluid or width or height''))"
  using assms
  by (auto simp: PictureAsset_def asset_metadata_def with_default_def split: js.splits)

lemma PictureAsset_svg:
  assumes "image_p p = Some img" and "asset img = Some a"
    and "truthy_str (asset_ref a) \<or> truthy_str (asset_id a)"
    and "metadata a \<noteq> Null"
    and "isFluid p \<or> truthy (width p) \<or> truthy (height p)"
    and "extension a = Some ''svg''"
  shows "PictureAsset ex p s =
           ([], Inr (Some (Elem ''img''
                  ([(''src'', Val (str_val (asset_url a))),
                    (''alt'', Val (JStr (alt p))),
                    (''className'', Val (case className p of None \<Rightarrow> JNull | Some c \<Rightarrow> JStr c))]
                   @ otherProps p) [])))"
  using assms
  by (auto simp: PictureAsset_def asset_metadata_def with_default_def split: js.splits)

lemma PictureAsset_raster:
  assumes "image_p p = Some img" and "asset img = Some a"
    and "truthy_str (asset_ref a) \<or> truthy_str (asset_id a)"
    and "isFluid p \<or> truthy (width p) \<or> truthy (height p)"
    and "extension a \<noteq> Some ''svg''"
  shows "PictureAsset ex p s =
           (case asset_metadata a of
              None \<Rightarrow> ([], Inl TypeError)
            | Some md \<Rightarrow>
                (case raster_tree ex p s img a (metadata_lqip md) (metadata_dimensions md) of
                   Inl e \<Rightarrow> ([], Inl e)
                 | Inr tree \<Rightarrow> ([], Inr (Some tree))))"
  using assms by (auto simp: PictureAsset_def Let_def split: option.splits)

lemma compute_error: "compute ex p img a dims = Inl e \<Longrightarrow> e = TypeError"
  by (auto simp: compute_def Let_def dimensions_aspectRatio_def split: if_splits option.splits)

lemma spacer_ratio_error: "spacer_ratio p dims = Inl e \<Longrightarrow> e = TypeError"
  by (auto simp: spacer_ratio_def dimensions_aspectRatio_def split: if_splits option.splits)

lemma raster_tree_cases:
  "raster_tree ex p s img a lq dims = Inl TypeError
   \<or> (\<exists>c. compute ex p img a dims = Inr c \<and> \<not> isFluid p
          \<and> raster_tree ex p s img a lq dims = Inr (raster_node ex p s img a lq c []))
   \<or> (\<exists>c r. compute ex p img a dims = Inr c \<and> isFluid p \<and> spacer_ratio p dims = Inr r
          \<and> raster_tree ex p s img a lq dims = Inr (raster_node ex p s img a lq c [spacer ex r]))"
  by (auto simp: raster_tree_def split: sum.splits dest: compute_error spacer_ratio_error)

text \<open>A raster render that happens.\<close>

lemma raster_render:
  assumes "image_p p = Some img" and "asset img = Some a"
    and "truthy_str (asset_ref a) \<or> truthy_str (asset_id a)"
    and "isFluid p \<or> truthy (width p) \<or> truthy (height p)"
    and "extension a \<noteq> Some ''svg''"
    and "rendered (PictureAsset ex p s) \<noteq> None"
  obtains md c spacers where "asset_metadata a = Some md"
    and "compute ex p img a (metadata_dimensions md) = Inr c"
    and "if isFluid p
         then \<exists>r. spacer_ratio p (metadata_dimensions md) = Inr r \<and> spacers = [spacer ex r]
         else spacers = []"
    and "PictureAsset ex p s =
           ([], Inr (Some (raster_node ex p s img a (metadata_lqip md) c spacers)))"
proof -
  note out = PictureAsset_raster [OF assms(1-5), of ex s]
  from out assms(6) obtain md where md: "asset_metadata a = Some md"
    by (cases "asset_metadata a") (auto simp: rendered_def)
  let ?dims = "metadata_dimensions md"
  from raster_tree_cases [of ex p s img a "metadata_lqip md" ?dims] out md assms(6)
  show thesis
    by (auto simp: rendered_def intro: that [OF md])
qed


section \<open>Sources and the final image of a tree\<close>

lemma sources_placeholder: "elems_with_tag ''source'' (placeholder ex p lq) = []"
  by (simp add: placeholder_def split: option.splits)

lemma sources_spacer: "elems_with_tag ''source'' (spacer ex r) = []"
  by (simp add: spacer_def)

lemma sources_raster_node:
  "elems_with_tag ''source'' (raster_node ex p s img a lq c []) =
     (if inView s then take 2 (picture_children ex p a c (fallback_url ex p img)) else [])"
  "elems_with_tag ''source'' (raster_node ex p s img a lq c [spacer ex r]) =
     (if inView s then take 2 (picture_children ex p a c (fallback_url ex p img)) else [])"
  by (simp_all add: raster_node_def sources_placeholder sources_spacer picture_children_def)

lemma final_image_raster_node:
  "final_image (raster_node ex p s img a lq c []) =
     (if inView s then Some (picture_children ex p a c (fallback_url ex p img) ! 2) else None)"
  "final_image (raster_node ex p s img a lq c [spacer ex r]) =
     (if inView s then Some (picture_children ex p a c (fallback_url ex p img) ! 2) else None)"
  by (simp_all add: raster_node_def final_image_def picture_children_def spacer_def)

lemma final_image_svg: "final_image (Elem ''img'' as []) = None"
  by (simp add: final_image_def)

lemma PictureAsset_cases:
  "PictureAsset ex p s = ([''Not a valid sanity image asset''], Inr None)
   \<or> PictureAsset ex p s =
        ([], Inl (Error ''Picture Asset component requires one of isFluid or width or height''))
   \<or> PictureAsset ex p s = ([], Inl TypeError)
   \<or> (\<exists>as. PictureAsset ex p s = ([], Inr (Some (Elem ''img'' as []))))
   \<or> (\<exists>img a lq c spacers.
         (spacers = [] \<or> (\<exists>r. spacers = [spacer ex r]))
         \<and> PictureAsset ex p s = ([], Inr (Some (raster_node ex p s img a lq c spacers))))"
proof -
  have tree: "raster_tree ex p s img a lq dims = Inl TypeError
      \<or> (\<exists>c spacers. (spacers = [] \<or> (\<exists>r. spacers = [spacer ex r]))
            \<and> raster_tree ex p s img a lq dims = Inr (raster_node ex p s img a lq c spacers))"
    for img a lq dims
    using raster_tree_cases [of ex p s img a lq dims] by blast
  show ?thesis
  proof (cases "image_p p")
    case None
    then show ?thesis by (simp add: PictureAsset_def)
  next
    case (Some img)
    show ?thesis
    proof (cases "asset img")
      case None
      with Some show ?thesis by (simp add: PictureAsset_def)
    next
      case (Some a)
      show ?thesis
      proof (cases "asset_metadata a")
        case None
        with \<open>image_p p = Some img\<close> Some show ?thesis
          by (simp add: PictureAsset_def)
      next
        case md: (Some md)
        let ?t = "raster_tree ex p s img a (metadata_lqip md) (metadata_dimensions md)"
        have out: "PictureAsset ex p s = ([''Not a valid sanity image asset''], Inr None)
            \<or> PictureAsset ex p s =
                 ([], Inl (Error ''Picture Asset component requires one of isFluid or width or height''))
            \<or> (\<exists>as. PictureAsset ex p s = ([], Inr (Some (Elem ''img'' as []))))
            \<or> PictureAsset ex p s =
                 (case ?t of Inl e \<Rightarrow> ([], Inl e) | Inr tree \<Rightarrow> ([], Inr (Some tree)))"
          using \<open>image_p p = Some img\<close> Some md
          by (simp add: PictureAsset_def Let_def)
        from tree [of img a "metadata_lqip md" "metadata_dimensions md"]
        consider "?t = Inl TypeError"
          | c spacers where "spacers = [] \<or> (\<exists>r. spacers = [spacer ex r])"
              and "?t = Inr (raster_node ex p s img a (metadata_lqip md) c spacers)"
          by blast
        then show ?thesis
        proof cases
          case 1
          with out show ?thesis by auto
        next
          case 2
          from out 2(2) have "PictureAsset ex p s = ([''Not a valid sanity image asset''], Inr None)
            \<or> PictureAsset ex p s =
                 ([], Inl (Error ''Picture Asset component requires one of isFluid or width or height''))
            \<or> (\<exists>as. PictureAsset ex p s = ([], Inr (Some (Elem ''img'' as []))))
            \<or> PictureAsset ex p s =
                 ([], Inr (Some (raster_node ex p s img a (metadata_lqip md) c spacers)))"
            by simp
          with 2(1) show ?thesis by blast
        qed
      qed
    qed
  qed
qed

lemma final_image_PictureAsset:
  assumes "snd (PictureAsset ex p s) = Inr (Some tree)" and "final_image tree = Some i"
  shows "inView s \<and> tag_of i = ''img'' \<and> attr_of ''onLoad'' i = Some (Handler (SetShow True))"
  using PictureAsset_cases [of ex p s] assms
  by (auto simp: final_image_svg final_image_raster_node picture_children_def
           split: if_splits)


section \<open>What the signals preserve\<close>

lemma step_ImageLoad:
  "step ex p s ImageLoad =
     (case snd (PictureAsset ex p s) of
        Inr (Some tree) \<Rightarrow> (if final_image tree = None then s else s\<lparr>shown := True\<rparr>)
      | _ \<Rightarrow> s)"
  by (auto simp: step_def dest: final_image_PictureAsset split: sum.splits option.splits)

lemma step_Intersecting:
  "step ex p s (Intersecting b) = (if inView s then s else s\<lparr>inView := b\<rparr>)"
  by (simp add: step_def observe_once_def)

lemma step_shown: "shown s \<Longrightarrow> shown (step ex p s ev)"
  by (cases ev) (auto simp: step_ImageLoad step_Intersecting split: sum.splits option.splits)


lemma run_append: "run ex s (xs @ ys) = run ex (run ex s xs) ys"
  by (induction xs arbitrary: s) auto

lemma run_shown: "shown s \<Longrightarrow> shown (run ex s tr)"
  by (induction tr arbitrary: s) (auto simp: step_shown)




section \<open>Observations of an outcome\<close>


lemma raster_observations:
  assumes "image_p p = Some img" and "asset img = Some a"
    and "truthy_str (asset_ref a) \<or> truthy_str (asset_id a)"
    and "isFluid p \<or> truthy (width p) \<or> truthy (height p)"
    and "extension a \<noteq> Some ''svg''"
    and "rendered (PictureAsset ex p s) \<noteq> None"
  obtains md c where "asset_metadata a = Some md"
    and "compute ex p img a (metadata_dimensions md) = Inr c"
    and "sources_of (PictureAsset ex p s) =
           (if inView s then take 2 (picture_children ex p a c (fallback_url ex p img)) else [])"
    and "final_image_of (PictureAsset ex p s) =
           (if inView s then Some (picture_children ex p a c (fallback_url ex p img) ! 2)
            else None)"
proof -
  from raster_render [OF assms] obtain md c spacers
    where md: "asset_metadata a = Some md"
      and c: "compute ex p img a (metadata_dimensions md) = Inr c"
      and sp: "if isFluid p
         then \<exists>r. spacer_ratio p (metadata_dimensions md) = Inr r \<and> spacers = [spacer ex r]
         else spacers = []"
      and out: "PictureAsset ex p s =
           ([], Inr (Some (raster_node ex p s img a (metadata_lqip md) c spacers)))"
    by blast
  from sp have "spacers = [] \<or> (\<exists>r. spacers = [spacer ex r])"
    by (auto split: if_splits)
  then have "sources_of (PictureAsset ex p s) =
           (if inView s then take 2 (picture_children ex p a c (fallback_url ex p img)) else [])"
    and "final_image_of (PictureAsset ex p s) =
           (if inView s then Some (picture_children ex p a c (fallback_url ex p img) ! 2)
            else None)"
    by (auto simp: out sources_of_def final_image_of_def rendered_def sources_raster_node
          final_image_raster_node)
  with md c show thesis by (rule that)
qed

lemma renders_with_dimensions:
  assumes "image_p p = Some img" and "asset img = Some a"
    and "truthy_str (asset_ref a) \<or> truthy_str (asset_id a)"
    and "isFluid p \<or> truthy (width p) \<or> truthy (height p)"
    and "extension a \<noteq> Some ''svg''"
    and "asset_metadata a = Some md" and "metadata_dimensions md = Some d"
  shows "rendered (PictureAsset ex p s) \<noteq> None"
  by (simp add: PictureAsset_raster [OF assms(1-5)] assms(6,7) raster_tree_def compute_def
        spacer_ratio_def dimensions_aspectRatio_def rendered_def Let_def)

lemma compute_srcsets:
  assumes "compute ex p img a dims = Inr c"
  shows "webpSrcSet c =
           breakPointsToString ex img (Some ''webp'')
             (Some (if isFluid p then (case maxWidth p of None \<Rightarrow> Fin 1780 | Some m \<Rightarrow> m)
                    else (case width p of
                            JNum w \<Rightarrow> w
                          | _ \<Rightarrow> (case maxWidth p of None \<Rightarrow> Fin 1780 | Some m \<Rightarrow> m))))
             (Some (case breakPoints p of
                      None \<Rightarrow> [Fin 1200, Fin 1000, Fin 800, Fin 600, Fin 400]
                    | Some bs \<Rightarrow> bs))
         \<and> defaultSrcSet c =
           breakPointsToString ex img (extension a)
             (Some (if isFluid p then (case maxWidth p of None \<Rightarrow> Fin 1780 | Some m \<Rightarrow> m)
                    else (case width p of
                            JNum w \<Rightarrow> w
                          | _ \<Rightarrow> (case maxWidth p of None \<Rightarrow> Fin 1780 | Some m \<Rightarrow> m))))
             (Some (case breakPoints p of
                      None \<Rightarrow> [Fin 1200, Fin 1000, Fin 800, Fin 600, Fin 400]
                    | Some bs \<Rightarrow> bs))"
proof -
  have mw: "(case maxWidth p of None \<Rightarrow> Fin 1780 | Some m \<Rightarrow> m) = maxWidth_of p"
    by (simp add: maxWidth_of_def DEFAULT_MAX_WIDTH_def split: option.splits)
  have bp: "(case breakPoints p of
               None \<Rightarrow> [Fin 1200, Fin 1000, Fin 800, Fin 600, Fin 400]
             | Some bs \<Rightarrow> bs) = breakPoints_of p"
    by (simp add: breakPoints_of_def defaultBreakpoints_def split: option.splits)
  show ?thesis
    unfolding mw bp using assms
    by (auto simp: compute_def Let_def split: if_splits sum.splits)
qed


lemma final_image_of_raster:
  assumes "image_p p = Some img" and "asset img = Some a"
    and "truthy_str (asset_ref a) \<or> truthy_str (asset_id a)"
    and "isFluid p \<or> truthy (width p) \<or> truthy (height p)"
    and "extension a \<noteq> Some ''svg''"
    and "rendered (PictureAsset ex p s) \<noteq> None"
    and "inView s"
  shows "\<exists>i. final_image_of (PictureAsset ex p s) = Some i \<and> tag_of i = ''img''"
proof -
  from raster_observations [OF assms(1-6)] obtain c
    where "final_image_of (PictureAsset ex p s) =
           (if inView s then Some (picture_children ex p a c (fallback_url ex p img) ! 2)
            else None)"
    by metis
  with assms(7) show ?thesis by (simp add: picture_children_def)
qed

lemma final_src_raster:
  assumes "image_p p = Some img" and "asset img = Some a"
    and "truthy_str (asset_ref a) \<or> truthy_str (asset_id a)"
    and "isFluid p \<or> truthy (width p) \<or> truthy (height p)"
    and "extension a \<noteq> Some ''svg''"
    and "rendered (PictureAsset ex p s) \<noteq> None"
    and "inView s"
  shows "final_src (PictureAsset ex p s) = Some (Val (JStr (fallback_url ex p img)))"
proof -
  from raster_observations [OF assms(1-6)] obtain c
    where "final_image_of (PictureAsset ex p s) =
           (if inView s then Some (picture_children ex p a c (fallback_url ex p img) ! 2)
            else None)"
    by metis
  with assms(7) show ?thesis by (simp add: final_src_def picture_children_def)
qed

section \<open>Evaluating the samples\<close>

lemmas sample_defs =
  sample_externals_def sample_dimensions_def sample_metadata_def sample_asset_def
  sample_image_def sample_props_def visible_def initial_def fluid_props_def fixed_props_def
  svg_asset_def svg_props_def bare_asset_def capped_props_def capped_fixed_props_def
  null_metadata_props_def

lemmas eval_defs =
  breakPointsToString_def defaultBreakpoints_def DEFAULT_MAX_WIDTH_def srcset_entry_def
  number_to_string_def nat_to_string.simps digit_char_def imageUrlFor_def with_width_def
  with_format_def maxWidth_of_def breakPoints_of_def sizes_of_def

lemma sample_asset_hyps:
  "asset sample_image = Some sample_asset"
  "truthy_str (asset_ref sample_asset) \<or> truthy_str (asset_id sample_asset)"
  "extension sample_asset \<noteq> Some ''svg''"
  "asset_metadata sample_asset = Some sample_metadata"
  "metadata_dimensions sample_metadata = Some sample_dimensions"
  by (simp_all add: sample_image_def sample_asset_def sample_metadata_def truthy_str_def
        asset_metadata_def metadata_dimensions_def with_default_def)

lemma sample_props_hyps:
  "image_p fluid_props = Some sample_image"
  "isFluid fluid_props \<or> truthy (width fluid_props) \<or> truthy (height fluid_props)"
  "image_p fixed_props = Some sample_image"
  "isFluid fixed_props \<or> truthy (width fixed_props) \<or> truthy (height fixed_props)"
  "image_p capped_props = Some sample_image"
  "isFluid capped_props \<or> truthy (width capped_props) \<or> truthy (height capped_props)"
  "image_p capped_fixed_props = Some sample_image"
  "isFluid capped_fixed_props \<or> truthy (width capped_fixed_props)
     \<or> truthy (height capped_fixed_props)"
  by (simp_all add: sample_props_def fluid_props_def fixed_props_def capped_props_def
        capped_fixed_props_def)

lemma sample_renders:
  "rendered (PictureAsset sample_externals fluid_props s) \<noteq> None"
  "rendered (PictureAsset sample_externals fixed_props s) \<noteq> None"
  "rendered (PictureAsset sample_externals capped_props s) \<noteq> None"
  "rendered (PictureAsset sample_externals capped_fixed_props s) \<noteq> None"
  by (rule renders_with_dimensions
        [OF _ sample_asset_hyps(1,2) _ sample_asset_hyps(3,4,5)];
      simp add: sample_props_hyps)+

text \<open>
  A \<open>dimensions\<close> that is \<open>null\<close> throws where it is read, and only there: in fluid
  mode when the \<open>aspectRatio\<close> prop is falsy, in fixed mode when \<open>height\<close> is.
\<close>

lemma null_dimensions_samples:
  "PictureAsset sample_externals
     (fluid_props\<lparr>image_p := Some \<lparr>asset = Some flat_asset\<rparr>\<rparr>) s = ([], Inl TypeError)"
  "PictureAsset sample_externals
     (fixed_props\<lparr>image_p := Some \<lparr>asset = Some flat_asset\<rparr>\<rparr>) s = ([], Inl TypeError)"
  "rendered (PictureAsset sample_externals
     (fluid_props\<lparr>image_p := Some \<lparr>asset = Some flat_asset\<rparr>,
                  aspectRatio := Some (Fin 2)\<rparr>) s) \<noteq> None"
  "rendered (PictureAsset sample_externals
     (fixed_props\<lparr>image_p := Some \<lparr>asset = Some flat_asset\<rparr>,
                  height := JNum (Fin 100)\<rparr>) s) \<noteq> None"
  by (simp_all add: PictureAsset_def raster_tree_def compute_def spacer_ratio_def
        dimensions_aspectRatio_def asset_metadata_def metadata_dimensions_def with_default_def
        truthy_str_def num_val_def rendered_def Let_def flat_asset_def sample_defs)

section \<open>Claims\<close>

text \<open>
  Several claims speak of a raster render. A call that throws does not render: the
  hypothesis \<open>rendered (PictureAsset ex p s) \<noteq> None\<close> leaves out exactly the calls that
  end in the TypeError of a \<open>null\<close> metadata or of a \<open>null\<close> dimensions that is read.
\<close>

text \<open>
  C1. For every asset, format, width ceiling \<open>W\<close> and breakpoint list,
  \<open>breakPointsToString\<close> returns the breakpoints that are \<open>\<le> W\<close>, in the order of the
  input list, each printed as the builder's URL for that width and format, a space, the
  breakpoint and \<open>w\<close>, joined by a comma and a space. When no breakpoint is \<open>\<le> W\<close>
  the result is the empty string.
\<close>

theorem breakPointsToString_spec:
  "breakPointsToString ex img (Some fmt) (Some W) (Some bps) =
     join '', ''
       (map (\<lambda>b. url ex \<lparr>b_image = img, b_width = Some b, b_format = Some fmt\<rparr>
                  @ '' '' @ number_to_string ex b @ ''w'')
            (filter (\<lambda>b. js_le b W) bps))
   \<and> (filter (\<lambda>b. js_le b W) bps = [] \<longrightarrow>
        breakPointsToString ex img (Some fmt) (Some W) (Some bps) = [])"
  by (simp add: breakPointsToString_def srcset_entry_def imageUrlFor_def with_width_def
        with_format_def)

theorem breakPointsToString_spec_witness:
  "breakPointsToString sample_externals sample_image (Some ''webp'') (Some (Fin 700))
     (Some [Fin 1200, Fin 1000, Fin 800, Fin 600, Fin 400])
     = ''u600.webp 600w, u400.webp 400w''
   \<and> filter (\<lambda>b. js_le b (Fin 300)) [Fin 1200, Fin 1000, Fin 800, Fin 600, Fin 400] = []
   \<and> breakPointsToString sample_externals sample_image (Some ''webp'') (Some (Fin 300))
        (Some [Fin 1200, Fin 1000, Fin 800, Fin 600, Fin 400]) = []"
  using breakPointsToString_spec [of sample_externals sample_image "''webp''" "Fin 700"
          "[Fin 1200, Fin 1000, Fin 800, Fin 600, Fin 400]"]
        breakPointsToString_spec [of sample_externals sample_image "''webp''" "Fin 300"
          "[Fin 1200, Fin 1000, Fin 800, Fin 600, Fin 400]"]
  by (simp add: sample_externals_def number_to_string_def nat_to_string.simps digit_char_def)



text \<open>
  C3. \<open>shown\<close> starts false. The load event of the final image, when that image is
  rendered, makes it true; no other signal does. Once true it stays true under every
  signal and every props, a further load event leaves the state as it is, and so a life
  that has reached \<open>shown\<close> keeps it however it goes on.
\<close>

theorem reveal_state:
  "shown initial = False
   \<and> (final_image_of (PictureAsset ex p s) \<noteq> None \<longrightarrow> shown (step ex p s ImageLoad))
   \<and> (\<not> shown s \<and> shown (step ex p s ev) \<longrightarrow> ev = ImageLoad)
   \<and> (shown s \<longrightarrow> shown (step ex p s ev) \<and> step ex p s ImageLoad = s)
   \<and> (shown (run ex initial tr1) \<longrightarrow> shown (run ex initial (tr1 @ tr2)))"
proof (intro conjI impI)
  show "shown initial = False" by (simp add: initial_def)
next
  assume "final_image_of (PictureAsset ex p s) \<noteq> None"
  then show "shown (step ex p s ImageLoad)"
    by (auto simp: step_ImageLoad final_image_of_def rendered_def
             split: sum.splits option.splits)
next
  assume "\<not> shown s \<and> shown (step ex p s ev)"
  then show "ev = ImageLoad"
    by (cases ev) (auto simp: step_Intersecting split: if_splits)
next
  assume "shown s"
  then show "shown (step ex p s ev)" by (rule step_shown)
next
  assume "shown s"
  then show "step ex p s ImageLoad = s"
    by (simp add: step_ImageLoad split: sum.splits option.splits)
next
  assume "shown (run ex initial tr1)"
  then show "shown (run ex initial (tr1 @ tr2))"
    by (simp add: run_append run_shown)
qed

theorem reveal_state_witness:
  "final_image_of (PictureAsset sample_externals fluid_props visible) \<noteq> None
   \<and> \<not> shown visible
   \<and> shown (step sample_externals fluid_props visible ImageLoad)
   \<and> step sample_externals fluid_props (step sample_externals fluid_props visible ImageLoad) ImageLoad
       = step sample_externals fluid_props visible ImageLoad
   \<and> shown (step sample_externals fixed_props
               (step sample_externals fluid_props visible ImageLoad) (Intersecting False))
   \<and> shown (run sample_externals initial
              ([(fluid_props, Intersecting True), (fluid_props, ImageLoad)]
               @ [(fluid_props, ImageLoad), (fixed_props, Intersecting False)]))"
proof -
  let ?loaded = "step sample_externals fluid_props visible ImageLoad"
  have v: "inView visible" by (simp add: visible_def)
  have img: "final_image_of (PictureAsset sample_externals fluid_props visible) \<noteq> None"
    using final_image_of_raster [OF sample_props_hyps(1) sample_asset_hyps(1,2)
            sample_props_hyps(2) sample_asset_hyps(3) sample_renders(1) v]
    by auto
  have hidden: "\<not> shown visible" by (simp add: visible_def)
  have loaded: "shown ?loaded"
    using reveal_state [of sample_externals fluid_props visible] img by blast
  have again: "step sample_externals fluid_props ?loaded ImageLoad = ?loaded"
    using reveal_state [of sample_externals fluid_props ?loaded] loaded by blast
  have stays: "shown (step sample_externals fixed_props ?loaded (Intersecting False))"
    using reveal_state [of sample_externals fixed_props ?loaded "Intersecting False"] loaded
    by blast
  have "run sample_externals initial [(fluid_props, Intersecting True), (fluid_props, ImageLoad)]
          = ?loaded"
    by (simp add: step_Intersecting initial_def visible_def)
  then have life: "shown (run sample_externals initial
              ([(fluid_props, Intersecting True), (fluid_props, ImageLoad)]
               @ [(fluid_props, ImageLoad), (fixed_props, Intersecting False)]))"
    using reveal_state [of sample_externals _ _ _
            "[(fluid_props, Intersecting True), (fluid_props, ImageLoad)]"
            "[(fluid_props, ImageLoad), (fixed_props, Intersecting False)]"] loaded
    by simp
  from img hidden loaded again stays life show ?thesis by blast
qed

text \<open>
  C4, as the claim states it, fails twice. An SVG asset rendered with \<open>isFluid\<close> unset
  and no \<open>width\<close> or \<open>height\<close> does not render an image, because the sizing check comes
  before the test of the extension and throws. And an SVG asset whose \<open>metadata\<close> is
  \<open>null\<close> does not render either, even with \<open>isFluid\<close> set: the destructuring of
  line 74 throws a TypeError first.
\<close>

theorem svg_needs_sizing_and_metadata:
  "extension svg_asset = Some ''svg''
   \<and> asset_ref svg_asset = Some ''image-logo-svg''
   \<and> image_p svg_props = Some \<lparr>asset = Some svg_asset\<rparr>
   \<and> \<not> isFluid svg_props \<and> width svg_props = JNull \<and> height svg_props = JNull
   \<and> PictureAsset sample_externals svg_props initial =
       ([], Inl (Error ''Picture Asset component requires one of isFluid or width or height''))
   \<and> PictureAsset sample_externals
        (svg_props\<lparr>image_p := Some \<lparr>asset = Some (svg_asset\<lparr>metadata := Null\<rparr>)\<rparr>,
                   isFluid := True\<rparr>) initial
       = ([], Inl TypeError)"
  by (simp add: sample_defs PictureAsset_def truthy_str_def asset_metadata_def with_default_def)

text \<open>
  C4, amended. For an asset with extension \<open>svg\<close>, a resolvable identity and a
  \<open>metadata\<close> that is not \<open>null\<close>, when \<open>isFluid\<close> is set or a \<open>width\<close> or
  \<open>height\<close> is supplied, the component returns exactly one \<open>img\<close> element without
  children: \<open>src\<close> is the asset's URL, then \<open>alt\<close>, then \<open>className\<close> (the \<open>null\<close> of
  defaultProps when the caller gave none), then the props passed through. The \<open>src\<close>
  read from it is the asset's URL unless a passed-through prop is itself named \<open>src\<close>.
  There is no \<open>source\<close> element, no final image behind a \<open>picture\<close>, and the outcome is
  the same in every state of the instance.
\<close>

theorem svg_renders_plain_image:
  assumes "image_p p = Some img" and "asset img = Some a"
    and "truthy_str (asset_ref a) \<or> truthy_str (asset_id a)"
    and "metadata a \<noteq> Null"
    and "isFluid p \<or> truthy (width p) \<or> truthy (height p)"
    and "extension a = Some ''svg''"
  shows "PictureAsset ex p s =
           ([], Inr (Some (Elem ''img''
                  ([(''src'', Val (str_val (asset_url a))),
                    (''alt'', Val (JStr (alt p))),
                    (''className'', Val (case className p of None \<Rightarrow> JNull | Some c \<Rightarrow> JStr c))]
                   @ otherProps p) [])))
         \<and> (''src'' \<notin> fst ` set (otherProps p) \<longrightarrow>
              (\<exists>i. rendered (PictureAsset ex p s) = Some i
                   \<and> attr_of ''src'' i = Some (Val (str_val (asset_url a)))))
         \<and> sources_of (PictureAsset ex p s) = []
         \<and> final_image_of (PictureAsset ex p s) = None
         \<and> PictureAsset ex p s' = PictureAsset ex p s"
proof -
  note out = PictureAsset_svg [OF assms]
  have "map_of (rev (otherProps p)) ''src'' = None" if "''src'' \<notin> fst ` set (otherProps p)"
    using that by (simp add: map_of_eq_None_iff)
  then show ?thesis
    by (simp add: out rendered_def sources_of_def final_image_of_def final_image_svg
          map_add_def)
qed

theorem svg_renders_plain_image_witness:
  "PictureAsset sample_externals (svg_props\<lparr>isFluid := True\<rparr>) initial =
     ([], Inr (Some (Elem ''img''
        [(''src'', Val (JStr ''https://cdn/logo.svg'')),
         (''alt'', Val (JStr [])),
         (''className'', Val JNull)] [])))
   \<and> PictureAsset sample_externals (svg_props\<lparr>isFluid := True\<rparr>) visible
       = PictureAsset sample_externals (svg_props\<lparr>isFluid := True\<rparr>) initial
   \<and> PictureAsset sample_externals
        (svg_props\<lparr>height := JNum (Fin 40), className := Some ''logo'', alt := ''Logo'',
                   otherProps := [(''title'', Val (JStr ''Home''))]\<rparr>) visible =
     ([], Inr (Some (Elem ''img''
        [(''src'', Val (JStr ''https://cdn/logo.svg'')),
         (''alt'', Val (JStr ''Logo'')),
         (''className'', Val (JStr ''logo'')),
         (''title'', Val (JStr ''Home''))] [])))"
proof -
  let ?p = "svg_props\<lparr>isFluid := True\<rparr>"
  let ?q = "svg_props\<lparr>height := JNum (Fin 40), className := Some ''logo'', alt := ''Logo'',
                   otherProps := [(''title'', Val (JStr ''Home''))]\<rparr>"
  have a: "asset \<lparr>asset = Some svg_asset\<rparr> = Some svg_asset"
    "truthy_str (asset_ref svg_asset) \<or> truthy_str (asset_id svg_asset)"
    "metadata svg_asset \<noteq> Null"
    "extension svg_asset = Some ''svg''"
    by (simp_all add: svg_asset_def truthy_str_def)
  have p: "image_p ?p = Some \<lparr>asset = Some svg_asset\<rparr>"
    "isFluid ?p \<or> truthy (width ?p) \<or> truthy (height ?p)"
    by (simp_all add: svg_props_def sample_props_def)
  have q: "image_p ?q = Some \<lparr>asset = Some svg_asset\<rparr>"
    "isFluid ?q \<or> truthy (width ?q) \<or> truthy (height ?q)"
    by (simp_all add: svg_props_def sample_props_def)
  have vals: "str_val (asset_url svg_asset) = JStr ''https://cdn/logo.svg''"
    "alt ?p = []" "className ?p = None" "otherProps ?p = []"
    "alt ?q = ''Logo''" "className ?q = Some ''logo''"
    "otherProps ?q = [(''title'', Val (JStr ''Home''))]"
    by (simp_all add: svg_props_def sample_props_def svg_asset_def str_val_def)
  from svg_renders_plain_image [OF p(1) a(1,2,3) p(2) a(4), of sample_externals initial visible]
       svg_renders_plain_image [OF q(1) a(1,2,3) q(2) a(4), of sample_externals visible visible]
  show ?thesis
    by (simp add: vals)
qed

text \<open>
  C5. The claim asks for the missing-sizing error on every raster asset with a
  resolvable identity when \<open>isFluid\<close> is unset and neither \<open>width\<close> nor \<open>height\<close> is
  supplied. The component does not do that for an asset whose \<open>metadata\<close> is \<open>null\<close>:
  the default of line 73 covers \<open>undefined\<close> only, line 74 destructures \<open>null\<close> and
  throws a TypeError, and the guard of line 76 is never reached. With the sample
  metadata in place the same props raise the missing-sizing error.
\<close>

theorem missing_sizing_masked_by_null_metadata:
  "image_p null_metadata_props = Some \<lparr>asset = Some (sample_asset\<lparr>metadata := Null\<rparr>)\<rparr>
   \<and> asset_id (sample_asset\<lparr>metadata := Null\<rparr>) = Some ''image-abc-jpg''
   \<and> extension (sample_asset\<lparr>metadata := Null\<rparr>) = Some ''jpg''
   \<and> \<not> isFluid null_metadata_props
   \<and> width null_metadata_props = JNull \<and> height null_metadata_props = JNull
   \<and> PictureAsset sample_externals null_metadata_props initial = ([], Inl TypeError)
   \<and> PictureAsset sample_externals sample_props initial =
       ([], Inl (Error ''Picture Asset component requires one of isFluid or width or height''))"
  by (simp add: sample_defs PictureAsset_def truthy_str_def asset_metadata_def with_default_def)

text \<open>
  C6. For every raster render, the WebP source set and the source set in the asset's own
  format are computed against the width ceiling: the \<open>maxWidth\<close> prop (1780 when
  omitted) when \<open>isFluid\<close> is set, otherwise \<open>width\<close> when it is a number and
  \<open>maxWidth\<close> when it is not, over the \<open>breakPoints\<close> prop (the five defaults when
  omitted). This holds for the values the sizing branch computes and, once the instance
  is in view, for the \<open>srcSet\<close> of the two \<open>source\<close> elements of the output.
\<close>

theorem source_set_ceiling:
  assumes "image_p p = Some img" and "asset img = Some a"
    and "truthy_str (asset_ref a) \<or> truthy_str (asset_id a)"
    and "isFluid p \<or> truthy (width p) \<or> truthy (height p)"
    and "extension a \<noteq> Some ''svg''"
  shows "let maxW = (case maxWidth p of None \<Rightarrow> Fin 1780 | Some m \<Rightarrow> m);
             ceiling = (if isFluid p then maxW
                        else (case width p of JNum w \<Rightarrow> w | _ \<Rightarrow> maxW));
             bps = (case breakPoints p of
                      None \<Rightarrow> [Fin 1200, Fin 1000, Fin 800, Fin 600, Fin 400]
                    | Some bs \<Rightarrow> bs);
             webp = breakPointsToString ex img (Some ''webp'') (Some ceiling) (Some bps);
             native = breakPointsToString ex img (extension a) (Some ceiling) (Some bps)
         in (asset_metadata a = Some md \<and> compute ex p img a (metadata_dimensions md) = Inr c
               \<longrightarrow> webpSrcSet c = webp \<and> defaultSrcSet c = native)
            \<and> (inView s \<and> rendered (PictureAsset ex p s) \<noteq> None \<longrightarrow>
                  map (attr_of ''srcSet'') (sources_of (PictureAsset ex p s)) =
                    [Some (Val (JStr webp)), Some (Val (JStr native))])"
proof -
  have computed: "webpSrcSet c' =
        breakPointsToString ex img (Some ''webp'')
          (Some (if isFluid p then (case maxWidth p of None \<Rightarrow> Fin 1780 | Some m \<Rightarrow> m)
                 else (case width p of
                         JNum w \<Rightarrow> w
                       | _ \<Rightarrow> (case maxWidth p of None \<Rightarrow> Fin 1780 | Some m \<Rightarrow> m))))
          (Some (case breakPoints p of
                   None \<Rightarrow> [Fin 1200, Fin 1000, Fin 800, Fin 600, Fin 400]
                 | Some bs \<Rightarrow> bs))
      \<and> defaultSrcSet c' =
        breakPointsToString ex img (extension a)
          (Some (if isFluid p then (case maxWidth p of None \<Rightarrow> Fin 1780 | Some m \<Rightarrow> m)
                 else (case width p of
                         JNum w \<Rightarrow> w
                       | _ \<Rightarrow> (case maxWidth p of None \<Rightarrow> Fin 1780 | Some m \<Rightarrow> m))))
          (Some (case breakPoints p of
                   None \<Rightarrow> [Fin 1200, Fin 1000, Fin 800, Fin 600, Fin 400]
                 | Some bs \<Rightarrow> bs))"
    if "compute ex p img a dims = Inr c'" for c' dims
    using that by (rule compute_srcsets)
  have rendered_sets: "map (attr_of ''srcSet'') (sources_of (PictureAsset ex p s)) =
        [Some (Val (JStr
           (breakPointsToString ex img (Some ''webp'')
              (Some (if isFluid p then (case maxWidth p of None \<Rightarrow> Fin 1780 | Some m \<Rightarrow> m)
                     else (case width p of
                             JNum w \<Rightarrow> w
                           | _ \<Rightarrow> (case maxWidth p of None \<Rightarrow> Fin 1780 | Some m \<Rightarrow> m))))
              (Some (case breakPoints p of
                       None \<Rightarrow> [Fin 1200, Fin 1000, Fin 800, Fin 600, Fin 400]
                     | Some bs \<Rightarrow> bs))))),
         Some (Val (JStr
           (breakPointsToString ex img (extension a)
              (Some (if isFluid p then (case maxWidth p of None \<Rightarrow> Fin 1780 | Some m \<Rightarrow> m)
                     else (case width p of
                             JNum w \<Rightarrow> w
                           | _ \<Rightarrow> (case maxWidth p of None \<Rightarrow> Fin 1780 | Some m \<Rightarrow> m))))
              (Some (case breakPoints p of
                       None \<Rightarrow> [Fin 1200, Fin 1000, Fin 800, Fin 600, Fin 400]
                     | Some bs \<Rightarrow> bs)))))]"
    if v: "inView s" and r: "rendered (PictureAsset ex p s) \<noteq> None"
  proof -
    from raster_observations [OF assms r] obtain md' c'
      where c': "compute ex p img a (metadata_dimensions md') = Inr c'"
        and src: "sources_of (PictureAsset ex p s) =
           (if inView s then take 2 (picture_children ex p a c' (fallback_url ex p img))
            else [])"
      by metis
    from v src have "map (attr_of ''srcSet'') (sources_of (PictureAsset ex p s)) =
        [Some (Val (JStr (webpSrcSet c'))), Some (Val (JStr (defaultSrcSet c')))]"
      by (simp add: picture_children_def)
    with computed [OF c'] show ?thesis by simp
  qed
  from computed rendered_sets show ?thesis
    unfolding Let_def by blast
qed

theorem source_set_ceiling_witness:
  "map (attr_of ''srcSet'') (sources_of (PictureAsset sample_externals capped_props visible)) =
       [Some (Val (JStr ''u300.webp 300w, u500.webp 500w'')),
        Some (Val (JStr ''u300.jpg 300w, u500.jpg 500w''))]
   \<and> map (attr_of ''srcSet'') (sources_of (PictureAsset sample_externals capped_fixed_props visible)) =
       [Some (Val (JStr ''u300.webp 300w, u500.webp 500w'')),
        Some (Val (JStr ''u300.jpg 300w, u500.jpg 500w''))]
   \<and> map (attr_of ''srcSet'') (sources_of (PictureAsset sample_externals fixed_props visible)) =
       [Some (Val (JStr ''u400.webp 400w'')), Some (Val (JStr ''u400.jpg 400w''))]
   \<and> map (attr_of ''srcSet'') (sources_of (PictureAsset sample_externals fluid_props visible)) =
       [Some (Val (JStr
          ''u1200.webp 1200w, u1000.webp 1000w, u800.webp 800w, u600.webp 600w, u400.webp 400w'')),
        Some (Val (JStr
          ''u1200.jpg 1200w, u1000.jpg 1000w, u800.jpg 800w, u600.jpg 600w, u400.jpg 400w''))]"
proof -
  have v: "inView visible" by (simp add: visible_def)
  note a = sample_asset_hyps(1,2)
  note svg = sample_asset_hyps(3)
  have ext: "extension sample_asset = Some ''jpg''" by (simp add: sample_asset_def)
  have capped: "isFluid capped_props" "maxWidth capped_props = Some (Fin 900)"
    "breakPoints capped_props = Some [Fin 300, Fin 1000, Fin 500]"
    by (simp_all add: sample_defs)
  have capped_fixed: "\<not> isFluid capped_fixed_props" "width capped_fixed_props = JStr ''50%''"
    "maxWidth capped_fixed_props = Some (Fin 900)"
    "breakPoints capped_fixed_props = Some [Fin 300, Fin 1000, Fin 500]"
    by (simp_all add: sample_defs)
  have fixed: "\<not> isFluid fixed_props" "width fixed_props = JNum (Fin 400)"
    "maxWidth fixed_props = None" "breakPoints fixed_props = None"
    by (simp_all add: sample_defs)
  have fluid: "isFluid fluid_props" "maxWidth fluid_props = None" "breakPoints fluid_props = None"
    by (simp_all add: sample_defs)
  have e900: "breakPointsToString sample_externals sample_image (Some ''webp'') (Some (Fin 900))
                (Some [Fin 300, Fin 1000, Fin 500]) = ''u300.webp 300w, u500.webp 500w''"
    "breakPointsToString sample_externals sample_image (Some ''jpg'') (Some (Fin 900))
                (Some [Fin 300, Fin 1000, Fin 500]) = ''u300.jpg 300w, u500.jpg 500w''"
    by (simp_all add: sample_externals_def eval_defs)
  have e400: "breakPointsToString sample_externals sample_image (Some ''webp'') (Some (Fin 400))
                (Some [Fin 1200, Fin 1000, Fin 800, Fin 600, Fin 400]) = ''u400.webp 400w''"
    "breakPointsToString sample_externals sample_image (Some ''jpg'') (Some (Fin 400))
                (Some [Fin 1200, Fin 1000, Fin 800, Fin 600, Fin 400]) = ''u400.jpg 400w''"
    by (simp_all add: sample_externals_def eval_defs)
  have e1780: "breakPointsToString sample_externals sample_image (Some ''webp'') (Some (Fin 1780))
                (Some [Fin 1200, Fin 1000, Fin 800, Fin 600, Fin 400]) =
       ''u1200.webp 1200w, u1000.webp 1000w, u800.webp 800w, u600.webp 600w, u400.webp 400w''"
    "breakPointsToString sample_externals sample_image (Some ''jpg'') (Some (Fin 1780))
                (Some [Fin 1200, Fin 1000, Fin 800, Fin 600, Fin 400]) =
       ''u1200.jpg 1200w, u1000.jpg 1000w, u800.jpg 800w, u600.jpg 600w, u400.jpg 400w''"
    by (simp_all add: sample_externals_def eval_defs)
  have r1: "map (attr_of ''srcSet'') (sources_of (PictureAsset sample_externals capped_props visible)) =
       [Some (Val (JStr ''u300.webp 300w, u500.webp 500w'')),
        Some (Val (JStr ''u300.jpg 300w, u500.jpg 500w''))]"
    using source_set_ceiling [OF sample_props_hyps(5) a sample_props_hyps(6) svg,
            of sample_externals _ _ visible] v sample_renders(3) [of visible]
    by (simp add: Let_def capped ext e900)
  have r2: "map (attr_of ''srcSet'')
              (sources_of (PictureAsset sample_externals capped_fixed_props visible)) =
       [Some (Val (JStr ''u300.webp 300w, u500.webp 500w'')),
        Some (Val (JStr ''u300.jpg 300w, u500.jpg 500w''))]"
    using source_set_ceiling [OF sample_props_hyps(7) a sample_props_hyps(8) svg,
            of sample_externals _ _ visible] v sample_renders(4) [of visible]
    by (simp add: Let_def capped_fixed ext e900)
  have r3: "map (attr_of ''srcSet'') (sources_of (PictureAsset sample_externals fixed_props visible)) =
       [Some (Val (JStr ''u400.webp 400w'')), Some (Val (JStr ''u400.jpg 400w''))]"
    using source_set_ceiling [OF sample_props_hyps(3) a sample_props_hyps(4) svg,
            of sample_externals _ _ visible] v sample_renders(2) [of visible]
    by (simp add: Let_def fixed ext e400)
  have r4: "map (attr_of ''srcSet'') (sources_of (PictureAsset sample_externals fluid_props visible)) =
       [Some (Val (JStr
          ''u1200.webp 1200w, u1000.webp 1000w, u800.webp 800w, u600.webp 600w, u400.webp 400w'')),
        Some (Val (JStr
          ''u1200.jpg 1200w, u1000.jpg 1000w, u800.jpg 800w, u600.jpg 600w, u400.jpg 400w''))]"
    using source_set_ceiling [OF sample_props_hyps(1) a sample_props_hyps(2) svg,
            of sample_externals _ _ visible] v sample_renders(1) [of visible]
    by (simp add: Let_def fluid ext e1780)
  from r1 r2 r3 r4 show ?thesis by blast
qed

text \<open>
  C7, as the claim states it, fails: in fixed mode with \<open>width = 400\<close> and the default
  \<open>maxWidth\<close>, the width ceiling is 400 but the \<open>src\<close> of the final image is the
  builder's URL for width 1780, which differs from its URL for width 400 with or without
  a format.
\<close>

theorem fallback_src_ignores_fixed_width:
  "isFluid fixed_props = False \<and> width fixed_props = JNum (Fin 400)
   \<and> maxWidth fixed_props = None
   \<and> final_src (PictureAsset sample_externals fixed_props visible) = Some (Val (JStr ''u1780''))
   \<and> url sample_externals \<lparr>b_image = sample_image, b_width = Some (Fin 400),
                            b_format = Some ''jpg''\<rparr> = ''u400.jpg''
   \<and> url sample_externals \<lparr>b_image = sample_image, b_width = Some (Fin 400),
                            b_format = None\<rparr> = ''u400''"
proof -
  have v: "inView visible" by (simp add: visible_def)
  have u: "fallback_url sample_externals fixed_props sample_image = ''u1780''"
    by (simp add: fallback_url_def sample_defs eval_defs)
  have "final_src (PictureAsset sample_externals fixed_props visible) = Some (Val (JStr ''u1780''))"
    using final_src_raster [OF sample_props_hyps(3) sample_asset_hyps(1,2) sample_props_hyps(4)
            sample_asset_hyps(3) sample_renders(2) v]
    by (simp add: u)
  then show ?thesis
    by (simp add: sample_defs eval_defs)
qed

text \<open>
  C7, amended. For every raster render that is in view, the \<open>src\<close> of the final image
  is the single URL the builder gives for the width of the \<open>maxWidth\<close> prop (1780 when
  omitted), in fluid and in fixed mode alike, with no format requested.
\<close>

theorem fallback_src_at_maxWidth:
  assumes "image_p p = Some img" and "asset img = Some a"
    and "truthy_str (asset_ref a) \<or> truthy_str (asset_id a)"
    and "isFluid p \<or> truthy (width p) \<or> truthy (height p)"
    and "extension a \<noteq> Some ''svg''"
    and "rendered (PictureAsset ex p s) \<noteq> None"
    and "inView s"
  shows "final_src (PictureAsset ex p s) =
           Some (Val (JStr (url ex
             \<lparr>b_image = img,
              b_width = Some (case maxWidth p of None \<Rightarrow> Fin 1780 | Some m \<Rightarrow> m),
              b_format = None\<rparr>)))"
proof -
  have "fallback_url ex p img =
          url ex \<lparr>b_image = img,
                  b_width = Some (case maxWidth p of None \<Rightarrow> Fin 1780 | Some m \<Rightarrow> m),
                  b_format = None\<rparr>"
    by (simp add: fallback_url_def imageUrlFor_def with_width_def maxWidth_of_def
          DEFAULT_MAX_WIDTH_def split: option.splits)
  with final_src_raster [OF assms] show ?thesis by simp
qed

theorem fallback_src_at_maxWidth_witness:
  "final_src (PictureAsset sample_externals capped_props visible) = Some (Val (JStr ''u900''))
   \<and> final_src (PictureAsset sample_externals (fixed_props\<lparr>maxWidth := Some (Fin 640)\<rparr>) visible)
       = Some (Val (JStr ''u640''))
   \<and> final_src (PictureAsset sample_externals fluid_props visible) = Some (Val (JStr ''u1780''))"
proof -
  let ?q = "fixed_props\<lparr>maxWidth := Some (Fin 640)\<rparr>"
  have v: "inView visible" by (simp add: visible_def)
  have q: "image_p ?q = Some sample_image"
    "isFluid ?q \<or> truthy (width ?q) \<or> truthy (height ?q)"
    by (simp_all add: fixed_props_def sample_props_def)
  have rq: "rendered (PictureAsset sample_externals ?q visible) \<noteq> None"
    by (rule renders_with_dimensions [OF q(1) sample_asset_hyps(1,2) q(2) sample_asset_hyps(3,4,5)])
  have w: "maxWidth capped_props = Some (Fin 900)" "maxWidth ?q = Some (Fin 640)"
    "maxWidth fluid_props = None"
    by (simp_all add: sample_defs)
  have u: "url sample_externals \<lparr>b_image = sample_image, b_width = Some (Fin 900), b_format = None\<rparr>
             = ''u900''"
    "url sample_externals \<lparr>b_image = sample_image, b_width = Some (Fin 640), b_format = None\<rparr>
             = ''u640''"
    "url sample_externals \<lparr>b_image = sample_image, b_width = Some (Fin 1780), b_format = None\<rparr>
             = ''u1780''"
    by (simp_all add: sample_externals_def nat_to_string.simps digit_char_def)
  from fallback_src_at_maxWidth [OF sample_props_hyps(5) sample_asset_hyps(1,2)
         sample_props_hyps(6) sample_asset_hyps(3) sample_renders(3) v]
       fallback_src_at_maxWidth [OF q(1) sample_asset_hyps(1,2) q(2) sample_asset_hyps(3) rq v]
       fallback_src_at_maxWidth [OF sample_props_hyps(1) sample_asset_hyps(1,2)
         sample_props_hyps(2) sample_asset_hyps(3) sample_renders(1) v]
  show ?thesis by (simp add: w u)
qed




text \<open>
  C9. For an asset that carries neither \<open>_ref\<close> nor \<open>_id\<close>, whatever the other props
  and the state of the instance, the component logs the invalid-asset message once and
  returns \<open>null\<close>; it does not throw.
\<close>

theorem invalid_asset_renders_nothing:
  assumes "image_p p = Some img" and "asset img = Some a"
    and "asset_ref a = None" and "asset_id a = None"
  shows "PictureAsset ex p s = ([''Not a valid sanity image asset''], Inr None)"
  using assms by (intro PictureAsset_invalid) (auto simp: truthy_str_def)

theorem invalid_asset_renders_nothing_witness:
  "PictureAsset sample_externals
     (sample_props\<lparr>image_p := Some \<lparr>asset = Some (sample_asset\<lparr>asset_id := None\<rparr>)\<rparr>,
                    isFluid := True\<rparr>) visible
   = ([''Not a valid sanity image asset''], Inr None)"
  using invalid_asset_renders_nothing [of
    "sample_props\<lparr>image_p := Some \<lparr>asset = Some (sample_asset\<lparr>asset_id := None\<rparr>)\<rparr>,
                   isFluid := True\<rparr>"
    "\<lparr>asset = Some (sample_asset\<lparr>asset_id := None\<rparr>)\<rparr>"
    "sample_asset\<lparr>asset_id := None\<rparr>" sample_externals visible]
  by (simp add: sample_defs)

text \<open>
  C10. When the \<open>image\<close> prop is omitted, or is an object without \<open>asset\<close>, the
  component logs the invalid-asset message and returns \<open>null\<close>, exactly as it does for
  an asset without \<open>_ref\<close> and \<open>_id\<close>. Nothing is assumed about \<open>isFluid\<close>,
  \<open>width\<close> or \<open>height\<close>: the check comes before the sizing check, so the
  missing-sizing error is not thrown.
\<close>

theorem missing_image_renders_nothing:
  assumes "image_p p = None \<or> (\<exists>img. image_p p = Some img \<and> asset img = None)"
  shows "PictureAsset ex p s = ([''Not a valid sanity image asset''], Inr None)
         \<and> (asset_ref a = None \<and> asset_id a = None \<longrightarrow>
              PictureAsset ex p s = PictureAsset ex (p\<lparr>image_p := Some \<lparr>asset = Some a\<rparr>\<rparr>) s)"
proof -
  have 1: "PictureAsset ex p s = ([''Not a valid sanity image asset''], Inr None)"
    using assms by (intro PictureAsset_invalid) auto
  have 2: "PictureAsset ex (p\<lparr>image_p := Some \<lparr>asset = Some a\<rparr>\<rparr>) s
             = ([''Not a valid sanity image asset''], Inr None)"
    if "asset_ref a = None" and "asset_id a = None"
    using that by (intro PictureAsset_invalid) (auto simp: truthy_str_def)
  from 1 2 show ?thesis by simp
qed

theorem missing_image_renders_nothing_witness:
  "PictureAsset sample_externals (sample_props\<lparr>image_p := None\<rparr>) initial
     = ([''Not a valid sanity image asset''], Inr None)
   \<and> PictureAsset sample_externals (sample_props\<lparr>image_p := Some \<lparr>asset = None\<rparr>\<rparr>) initial
     = ([''Not a valid sanity image asset''], Inr None)
   \<and> \<not> isFluid sample_props \<and> \<not> truthy (width sample_props) \<and> \<not> truthy (height sample_props)
   \<and> PictureAsset sample_externals (sample_props\<lparr>image_p := None\<rparr>) initial
     = PictureAsset sample_externals
         (sample_props\<lparr>image_p := Some \<lparr>asset = Some (sample_asset\<lparr>asset_id := None\<rparr>)\<rparr>\<rparr>) initial"
proof -
  let ?a = "sample_asset\<lparr>asset_id := None\<rparr>"
  have ids: "asset_ref ?a = None \<and> asset_id ?a = None"
    by (simp add: sample_asset_def)
  have omitted: "image_p (sample_props\<lparr>image_p := None\<rparr>) = None
      \<or> (\<exists>img. image_p (sample_props\<lparr>image_p := None\<rparr>) = Some img \<and> asset img = None)"
    by simp
  have no_asset: "image_p (sample_props\<lparr>image_p := Some \<lparr>asset = None\<rparr>\<rparr>) = None
      \<or> (\<exists>img. image_p (sample_props\<lparr>image_p := Some \<lparr>asset = None\<rparr>\<rparr>) = Some img
            \<and> asset img = None)"
    by simp
  have sizing: "\<not> isFluid sample_props \<and> \<not> truthy (width sample_props)
      \<and> \<not> truthy (height sample_props)"
    by (simp add: sample_props_def)
  note omitted_case = missing_image_renders_nothing [OF omitted, of sample_externals initial ?a]
  note no_asset_case = missing_image_renders_nothing [OF no_asset, of sample_externals initial ?a]
  have r1: "PictureAsset sample_externals (sample_props\<lparr>image_p := None\<rparr>) initial
              = ([''Not a valid sanity image asset''], Inr None)"
    using omitted_case by blast
  have r2: "PictureAsset sample_externals (sample_props\<lparr>image_p := Some \<lparr>asset = None\<rparr>\<rparr>) initial
              = ([''Not a valid sanity image asset''], Inr None)"
    using no_asset_case by blast
  have r3: "PictureAsset sample_externals (sample_props\<lparr>image_p := None\<rparr>) initial
              = PictureAsset sample_externals
                  (sample_props\<lparr>image_p := Some \<lparr>asset = Some ?a\<rparr>\<rparr>) initial"
    using omitted_case ids by auto
  show ?thesis using r1 r2 r3 sizing by blast
qed

end
